theory Spec2Isabelle
  imports Main
begin

section \<open>Data model\<close>

text \<open>
  The client keeps plain JavaScript objects. Each object shape the handlers build or read
  is a record; a property that may be \<^verbatim>\<open>undefined\<close> (absent from a JSON body, or never set)
  is an \<open>option\<close> field. Confidence levels, threat types, statuses and platforms stay
  strings, as in the source, which compares them with \<^verbatim>\<open>===\<close> and \<^verbatim>\<open>includes\<close>.
\<close>

record score =
  threatType :: string
  confidenceLevel :: string

record resolved_uri_score =
  resolvedUri :: string
  resolved_scores :: "score list option"

text \<open>The objects \<^verbatim>\<open>handleScan\<close> puts into \<^verbatim>\<open>results\<close>.\<close>

record scan_result =
  result_id :: int
  result_url :: string
  result_status :: string
  result_timestamp :: string
  result_scores :: "score list option"
  result_resolvedUriScore :: "resolved_uri_score option"
  result_details :: "string option"

text \<open>The objects \<^verbatim>\<open>WebRiskDemo.handleSubmit\<close> puts into \<^verbatim>\<open>submissions\<close>.\<close>

record submission =
  sub_id :: int
  sub_url :: string
  operation :: string
  timestamp :: "string option"
  lastUpdated :: string
  evidence :: string
  abuseType :: string
  platform :: string
  status :: "string option"
  details :: "string option"

record submission_form =
  form_url :: string
  form_evidence :: string
  form_abuseType :: string
  form_platform :: string
  form_regionCodes :: "string list"

text \<open>The objects the older \<^verbatim>\<open>SubmissionTab\<close> component keeps in its own \<^verbatim>\<open>submissions\<close>.\<close>

record tab_submission =
  tab_url :: string
  tab_operation :: string
  tab_timestamp :: "string option"
  tab_evidence :: string
  tab_type :: string
  tab_status :: "string option"

section \<open>External collaborators\<close>

text \<open>
  A parsed JSON response body, seen through the properties the handlers read:
  \<^verbatim>\<open>data.scores\<close>, \<^verbatim>\<open>data.resolvedUriScore\<close>, \<^verbatim>\<open>data.operation\<close>, \<^verbatim>\<open>data.timestamp\<close>,
  \<^verbatim>\<open>data.status\<close>, \<^verbatim>\<open>data.details\<close>.
\<close>

record api_data =
  d_scores :: "score list option"
  d_resolvedUriScore :: "resolved_uri_score option"
  d_operation :: "string option"
  d_timestamp :: "string option"
  d_status :: "string option"
  d_details :: "string option"

datatype js_body =
    BodyInvalid string   \<comment> \<open>\<^verbatim>\<open>response.json()\<close> rejects, or the body is \<^verbatim>\<open>null\<close>; the error's message\<close>
  | Body api_data

datatype fetch_result =
    NetworkError string   \<comment> \<open>\<^verbatim>\<open>fetch\<close> rejects; the error's message\<close>
  | Response bool nat js_body   \<comment> \<open>\<^verbatim>\<open>response.ok\<close>, \<^verbatim>\<open>response.status\<close>, the body\<close>

datatype request_body =
    ScanBody string
  | SubmitBody string string string string "string list"

datatype request = GET string | POST string request_body

text \<open>What a handler does to the outside world, in the order it does it.\<close>

datatype event =
    Fetch request
  | SetItem string string
  | RemoveItem string
  | ConsoleError string

text \<open>
  The environment of one handler run: the remote services' answer to each request, the
  clock, the user's answer to \<^verbatim>\<open>window.confirm\<close>, the runtime's JSON codec on submission
  lists (\<open>None\<close>: \<^verbatim>\<open>JSON.parse\<close> throws) and whether \<^verbatim>\<open>localStorage.setItem\<close> throws
  (quota exceeded, storage disabled). The codec is typed: a stored text that parses to
  something other than a list of submission objects is outside this model. The clock is
  read once per handler run.
\<close>

record env =
  fetch :: "request \<Rightarrow> fetch_result"
  Date_now :: int
  Date_toISOString :: string
  window_confirm :: "string \<Rightarrow> bool"
  JSON_stringify :: "submission list \<Rightarrow> string"
  JSON_parse :: "string \<Rightarrow> submission list option"
  setItem_throws :: "string \<Rightarrow> string \<Rightarrow> bool"

section \<open>The \<^verbatim>\<open>WebRiskDemo\<close> component\<close>

text \<open>The component's \<^verbatim>\<open>useState\<close> cells, the browser's \<^verbatim>\<open>localStorage\<close> and the trace of effects.\<close>

record demo_state =
  activeTab :: string
  url :: string
  results :: "scan_result list"
  loading :: bool
  submissions :: "submission list"
  expandedResultId :: "int option"
  submissionForm :: submission_form
  isSubmitting :: bool
  localStorage :: "string \<rightharpoonup> string"
  trace :: "event list"

definition STORAGE_KEY :: string where
  "STORAGE_KEY = ''webRiskSubmissions''"

subsection \<open>Risk classification\<close>

text \<open>\<^verbatim>\<open>array.includes(x)\<close>.\<close>

definition array_includes :: "'a list \<Rightarrow> 'a \<Rightarrow> bool" where
  "array_includes xs x = (x \<in> set xs)"

text \<open>
  \<^verbatim>\<open>scores?.some(score => ['MEDIUM', 'HIGH', 'HIGHER', 'EXTREMELY_HIGH'].includes(score.confidenceLevel))\<close>;
  \<open>None\<close> is the \<^verbatim>\<open>undefined\<close> that \<^verbatim>\<open>?.\<close> yields on absent scores.
\<close>

definition hasHighRisk :: "score list option \<Rightarrow> bool option" where
  "hasHighRisk scores =
     (case scores of
        None \<Rightarrow> None
      | Some ss \<Rightarrow> Some (list_ex (\<lambda>score.
          array_includes [''MEDIUM'', ''HIGH'', ''HIGHER'', ''EXTREMELY_HIGH''] (confidenceLevel score)) ss))"

text \<open>
  \<^verbatim>\<open>handleQuickSubmit(result)\<close>: \<^verbatim>\<open>result.scores.find(...)?.threatType || ''\<close>.
  Reading \<^verbatim>\<open>.find\<close> of absent scores throws a TypeError (\<open>None\<close>); the form is then not set.
\<close>

definition handleQuickSubmit :: "scan_result \<Rightarrow> demo_state \<Rightarrow> demo_state option" where
  "handleQuickSubmit result st =
     (case result_scores result of
        None \<Rightarrow> None
      | Some ss \<Rightarrow>
          Some (st\<lparr>submissionForm := (submissionForm st)\<lparr>
            form_url := result_url result,
            form_abuseType :=
              (case find (\<lambda>score.
                  array_includes [''MEDIUM'', ''HIGH'', ''HIGHER'', ''EXTREMELY_HIGH''] (confidenceLevel score)) ss of
                 None \<Rightarrow> ''''
               | Some score \<Rightarrow> (if threatType score = '''' then '''' else threatType score))\<rparr>\<rparr>))"

text \<open>
  The verdict icon of a result card (the JSX at the right of each result):
  \<^verbatim>\<open>result.scores?.every(s => ['SAFE','LOW'].includes(s.confidenceLevel)) &&
  (!result.resolvedUriScore?.scores || result.resolvedUriScore.scores.every(...))\<close>;
  \<open>True\<close> is the green check, \<open>False\<close> the red triangle.
\<close>

definition verdictIsSafe :: "scan_result \<Rightarrow> bool" where
  "verdictIsSafe result =
     ((case result_scores result of
         None \<Rightarrow> False
       | Some ss \<Rightarrow> list_all (\<lambda>score. array_includes [''SAFE'', ''LOW''] (confidenceLevel score)) ss)
      \<and>
      (case result_resolvedUriScore result of
         None \<Rightarrow> True
       | Some r \<Rightarrow>
           (case resolved_scores r of
              None \<Rightarrow> True
            | Some rs \<Rightarrow> list_all (\<lambda>score. array_includes [''SAFE'', ''LOW''] (confidenceLevel score)) rs)))"

subsection \<open>Scanning\<close>

text \<open>The request \<^verbatim>\<open>handleScan\<close> sends; the URL is a single-quoted literal in the source.\<close>

definition scan_request :: "demo_state \<Rightarrow> request" where
  "scan_request st = POST ''${backendBaseUrl}/api/scan'' (ScanBody (url st))"

text \<open>
  The \<^verbatim>\<open>try\<close> block of \<^verbatim>\<open>handleScan\<close>: \<open>Inl\<close> carries the message of the error thrown,
  \<open>Inr\<close> the result object built.
\<close>

definition handleScan_try :: "env \<Rightarrow> demo_state \<Rightarrow> string + scan_result" where
  "handleScan_try env st =
     (case fetch env (scan_request st) of
        NetworkError msg \<Rightarrow> Inl msg
      | Response ok code body \<Rightarrow>
          (case body of
             BodyInvalid msg \<Rightarrow> Inl msg
           | Body data \<Rightarrow>
               (case d_scores data of
                  None \<Rightarrow> Inl ''No scores received from API''
                | Some scores \<Rightarrow>
                    (let isSafe = list_all (\<lambda>score. confidenceLevel score = ''SAFE'') scores
                     in Inr \<lparr>result_id = Date_now env,
                             result_url = url st,
                             result_status = (if isSafe then ''safe'' else ''threat''),
                             result_timestamp = Date_toISOString env,
                             result_scores = Some scores,
                             result_resolvedUriScore = d_resolvedUriScore data,
                             result_details = None\<rparr>))))"

text \<open>\<^verbatim>\<open>handleScan\<close>, with its \<^verbatim>\<open>catch\<close> block and the two state resets after it.\<close>

definition handleScan :: "env \<Rightarrow> demo_state \<Rightarrow> demo_state" where
  "handleScan env st =
     (let st1 = st\<lparr>loading := True, trace := trace st @ [Fetch (scan_request st)]\<rparr>;
          st2 = (case handleScan_try env st of
                   Inr result \<Rightarrow> st1\<lparr>results := result # results st\<rparr>
                 | Inl message \<Rightarrow>
                     st1\<lparr>trace := trace st1 @ [ConsoleError ''Error during scan:''],
                         results :=
                           \<lparr>result_id = Date_now env,
                            result_url = url st,
                            result_status = ''error'',
                            result_timestamp = Date_toISOString env,
                            result_scores = None,
                            result_resolvedUriScore = None,
                            result_details =
                              Some (if message = '''' then ''Failed to scan URL'' else message)\<rparr>
                           # results st\<rparr>)
      in st2\<lparr>loading := False, url := ''''\<rparr>)"

subsection \<open>The persistent submission store\<close>

text \<open>
  \<^verbatim>\<open>saveSubmissionsToStorage\<close>: one \<^verbatim>\<open>setItem\<close> on the fixed key; when it throws, the
  \<^verbatim>\<open>catch\<close> logs and the slot keeps what it held.
\<close>

definition saveSubmissionsToStorage :: "env \<Rightarrow> submission list \<Rightarrow> demo_state \<Rightarrow> demo_state" where
  "saveSubmissionsToStorage env subs st =
     (let json = JSON_stringify env subs;
          st1 = st\<lparr>trace := trace st @ [SetItem STORAGE_KEY json]\<rparr>
      in if setItem_throws env STORAGE_KEY json
         then st1\<lparr>trace := trace st1 @ [ConsoleError ''Error saving to localStorage:'']\<rparr>
         else st1\<lparr>localStorage := (localStorage st)(STORAGE_KEY \<mapsto> json)\<rparr>)"

text \<open>
  \<^verbatim>\<open>loadSubmissionsFromStorage\<close>: \<^verbatim>\<open>stored ? JSON.parse(stored) : []\<close>, where \<^verbatim>\<open>getItem\<close>
  gives \<^verbatim>\<open>null\<close> for an absent key and the empty string is falsy too; the \<^verbatim>\<open>catch\<close>
  logs and returns \<^verbatim>\<open>[]\<close>. The second component is what the call logs.
\<close>

definition loadSubmissionsFromStorage :: "env \<Rightarrow> (string \<rightharpoonup> string) \<Rightarrow> submission list \<times> event list" where
  "loadSubmissionsFromStorage env store =
     (case store STORAGE_KEY of
        None \<Rightarrow> ([], [])
      | Some stored \<Rightarrow>
          (if stored = '''' then ([], [])
           else (case JSON_parse env stored of
                   None \<Rightarrow> ([], [ConsoleError ''Error loading from localStorage:''])
                 | Some subs \<Rightarrow> (subs, []))))"

text \<open>The state \<^verbatim>\<open>WebRiskDemo\<close> mounts with: the \<^verbatim>\<open>useState\<close> initial values.\<close>

definition initialForm :: submission_form where
  "initialForm = \<lparr>form_url = '''', form_evidence = '''', form_abuseType = '''',
                   form_platform = ''PLATFORM_UNSPECIFIED'', form_regionCodes = [''US'']\<rparr>"

definition WebRiskDemo :: "env \<Rightarrow> (string \<rightharpoonup> string) \<Rightarrow> demo_state" where
  "WebRiskDemo env store =
     \<lparr>activeTab = ''scan'', url = '''', results = [], loading = False,
      submissions = fst (loadSubmissionsFromStorage env store),
      expandedResultId = None, submissionForm = initialForm, isSubmitting = False,
      localStorage = store, trace = snd (loadSubmissionsFromStorage env store)\<rparr>"

text \<open>
  \<^verbatim>\<open>clearSubmissionHistory\<close>: both effects sit behind \<^verbatim>\<open>window.confirm\<close>.
\<close>

definition clearSubmissionHistory :: "env \<Rightarrow> demo_state \<Rightarrow> demo_state" where
  "clearSubmissionHistory env st =
     (if window_confirm env ''Are you sure you want to clear all submission history?''
      then st\<lparr>submissions := [],
              localStorage := (localStorage st)(STORAGE_KEY := None),
              trace := trace st @ [RemoveItem STORAGE_KEY]\<rparr>
      else st)"

subsection \<open>Creating a submission\<close>



subsection \<open>Refreshing one submission\<close>

text \<open>\<^verbatim>\<open>str.split(sep)\<close> for a one-character separator, and \<^verbatim>\<open>array.pop()\<close>'s value.\<close>

fun js_split :: "char \<Rightarrow> string \<Rightarrow> string list" where
  "js_split sep [] = [[]]"
| "js_split sep (c # cs) =
     (if c = sep then [] # js_split sep cs
      else (case js_split sep cs of
              [] \<Rightarrow> [[c]]
            | w # ws \<Rightarrow> (c # w) # ws))"

definition pop :: "'a list \<Rightarrow> 'a option" where
  "pop xs = (if xs = [] then None else Some (last xs))"

text \<open>The URL \<^verbatim>\<open>`/api/submission/${operationId}`\<close>; an \<^verbatim>\<open>undefined\<close> id prints as such.\<close>

definition status_request :: "string option \<Rightarrow> request" where
  "status_request operationId =
     GET (''/api/submission/'' @ (case operationId of None \<Rightarrow> ''undefined'' | Some i \<Rightarrow> i))"

text \<open>
  \<^verbatim>\<open>WebRiskDemo.refreshSubmissionStatus(operation)\<close>, the handler of each history row's
  \<^verbatim>\<open>Refresh Status\<close> button. It takes the operation handle, not the record, and never
  looks at a record's status before it fetches.
\<close>

definition refreshSubmissionStatus :: "env \<Rightarrow> string \<Rightarrow> demo_state \<Rightarrow> demo_state" where
  "refreshSubmissionStatus env op st =
     (let operationId = pop (js_split CHR ''/'' op);
          st1 = st\<lparr>trace := trace st @ [Fetch (status_request operationId)]\<rparr>;
          caught = st1\<lparr>trace := trace st1 @ [ConsoleError ''Error refreshing submission status:'']\<rparr>
      in case fetch env (status_request operationId) of
           NetworkError msg \<Rightarrow> caught
         | Response ok code body \<Rightarrow>
             (if \<not> ok then caught
              else (case body of
                      BodyInvalid msg \<Rightarrow> caught
                    | Body data \<Rightarrow>
                        (let updatedSubmissions =
                               map (\<lambda>sub. if operation sub = op
                                           then sub\<lparr>status := d_status data,
                                                    lastUpdated := Date_toISOString env,
                                                    details := d_details data\<rparr>
                                           else sub)
                                   (submissions st)
                         in saveSubmissionsToStorage env updatedSubmissions
                              (st1\<lparr>submissions := updatedSubmissions\<rparr>)))))"

section \<open>The \<^verbatim>\<open>SubmissionTab\<close> component\<close>

text \<open>
  The older component has one \<^verbatim>\<open>useState\<close> cell and no storage. Its trace uses the same
  events, so that a write to storage would show.
\<close>

record tab_state =
  tab_submissions :: "tab_submission list"
  tab_trace :: "event list"

text \<open>\<^verbatim>\<open>SubmissionTab.handleSubmit(submission)\<close>.\<close>

definition SubmissionTab_handleSubmit :: "tab_submission \<Rightarrow> tab_state \<Rightarrow> tab_state" where
  "SubmissionTab_handleSubmit submission st =
     st\<lparr>tab_submissions := submission # tab_submissions st\<rparr>"

text \<open>
  The callback that \<^verbatim>\<open>SubmissionTab.refreshSubmissionStatus\<close> maps over the list: the
  record it resolves with and the events it causes. Only a PENDING record is fetched; a
  throw inside is caught there and the record comes back as it was.
\<close>

definition refreshOne :: "env \<Rightarrow> tab_submission \<Rightarrow> tab_submission \<times> event list" where
  "refreshOne env submission =
     (if tab_status submission = Some ''PENDING''
      then
        (let req = GET (''/api/submission/'' @ tab_operation submission);
             caught = (submission, [Fetch req, ConsoleError ''Error updating status:''])
         in case fetch env req of
              NetworkError msg \<Rightarrow> caught
            | Response ok code body \<Rightarrow>
                (case body of
                   BodyInvalid msg \<Rightarrow> caught
                 | Body data \<Rightarrow> (submission\<lparr>tab_status := d_status data\<rparr>, [Fetch req])))
      else (submission, []))"


section \<open>Reading a trace\<close>

fun is_fetch :: "event \<Rightarrow> bool" where
  "is_fetch (Fetch r) = True"
| "is_fetch e = False"


text \<open>The requests sent, and the number of writes to storage, in a trace.\<close>

definition network_calls :: "event list \<Rightarrow> event list" where
  "network_calls evs = filter is_fetch evs"


text \<open>
  The value of \<^verbatim>\<open>await response.json()\<close> after \<^verbatim>\<open>await fetch(...)\<close>, when neither throws.
\<close>

fun reply_data :: "fetch_result \<Rightarrow> api_data option" where
  "reply_data (Response ok code (Body data)) = Some data"
| "reply_data r = None"

section \<open>Sample inputs\<close>

text \<open>
  Concrete collaborators for running the handlers: a clock reading, a network that
  refuses every request until an answer is put in, a user who declines, a storage that
  accepts every write, and a JSON codec that knows the text of two submission lists.
\<close>

definition sample_submission :: submission where
  "sample_submission =
     \<lparr>sub_id = 1729933200000,
      sub_url = ''http://evil.example'',
      operation = ''submissions/123'',
      timestamp = Some ''2024-10-26T09:00:00Z'',
      lastUpdated = ''2024-10-26T09:00:01.000Z'',
      evidence = ''fake login page'',
      abuseType = ''SOCIAL_ENGINEERING'',
      platform = ''ANDROID'',
      status = Some ''PENDING'',
      details = None\<rparr>"

definition sample_json :: string where
  "sample_json =
     ''[{\"id\":1729933200000,\"url\":\"http://evil.example\",\"operation\":\"submissions/123\",''
     @ ''\"timestamp\":\"2024-10-26T09:00:00Z\",\"lastUpdated\":\"2024-10-26T09:00:01.000Z\",''
     @ ''\"evidence\":\"fake login page\",\"abuseType\":\"SOCIAL_ENGINEERING\",''
     @ ''\"platform\":\"ANDROID\",\"status\":\"PENDING\"}]''"

definition sample_env :: env where
  "sample_env =
     \<lparr>fetch = (\<lambda>r. NetworkError ''Failed to fetch''),
      Date_now = 1730000000000,
      Date_toISOString = ''2024-10-27T03:33:20.000Z'',
      window_confirm = (\<lambda>m. False),
      JSON_stringify = (\<lambda>subs. if subs = [] then ''[]''
                               else if subs = [sample_submission] then sample_json else ''null''),
      JSON_parse = (\<lambda>s. if s = sample_json then Some [sample_submission]
                          else if s = ''[]'' then Some [] else None),
      setItem_throws = (\<lambda>k v. False)\<rparr>"

text \<open>A 200 response whose JSON body has the given properties, and a body with none.\<close>

definition no_data :: api_data where
  "no_data = \<lparr>d_scores = None, d_resolvedUriScore = None, d_operation = None,
               d_timestamp = None, d_status = None, d_details = None\<rparr>"

definition ok_response :: "api_data \<Rightarrow> fetch_result" where
  "ok_response data = Response True 200 (Body data)"

text \<open>
  The component mounted on a store that holds \<open>sample_json\<close>, with a URL typed into the
  scan box.
\<close>

definition sample_state :: demo_state where
  "sample_state =
     (WebRiskDemo sample_env (Map.empty(STORAGE_KEY \<mapsto> sample_json)))\<lparr>url := ''http://evil.example''\<rparr>"




section \<open>Auxiliary facts\<close>

lemma save_fields:
  "submissions (saveSubmissionsToStorage env subs st) = submissions st"
  "results (saveSubmissionsToStorage env subs st) = results st"
  "submissionForm (saveSubmissionsToStorage env subs st) = submissionForm st"
  by (simp_all add: saveSubmissionsToStorage_def Let_def)

lemma save_network_calls:
  "network_calls (trace (saveSubmissionsToStorage env subs st)) = network_calls (trace st)"
  by (simp add: saveSubmissionsToStorage_def Let_def network_calls_def)

lemma sample_state_eval:
  "submissions sample_state = [sample_submission]"
  "results sample_state = []"
  "url sample_state = ''http://evil.example''"
  "trace sample_state = []"
  "localStorage sample_state STORAGE_KEY = Some sample_json"
  by (simp_all add: sample_state_def WebRiskDemo_def loadSubmissionsFromStorage_def
        sample_env_def sample_json_def)






text \<open>
  The guard of the older component: a record that is not PENDING is resolved as it is,
  and nothing is fetched for it.
\<close>

lemma refreshOne_skips_non_pending:
  "tab_status s \<noteq> Some ''PENDING'' \<Longrightarrow> refreshOne env s = (s, [])"
  by (simp add: refreshOne_def)

section \<open>The risk predicates\<close>

text \<open>
  Claim C7. For every sequence of score entries, \<^verbatim>\<open>hasHighRisk\<close> is true exactly when at
  least one entry has a confidence level among MEDIUM, HIGH, HIGHER and EXTREMELY_HIGH;
  it is false for the empty sequence and for every sequence whose entries are all SAFE
  or LOW.
\<close>

theorem hasHighRisk_iff:
  "hasHighRisk (Some scores) =
     Some (\<exists>s\<in>set scores.
             confidenceLevel s \<in> {''MEDIUM'', ''HIGH'', ''HIGHER'', ''EXTREMELY_HIGH''})
   \<and> hasHighRisk (Some []) = Some False
   \<and> ((\<forall>s\<in>set scores. confidenceLevel s \<in> {''SAFE'', ''LOW''}) \<longrightarrow>
        hasHighRisk (Some scores) = Some False)"
proof -
  have general: "hasHighRisk (Some scores) =
     Some (\<exists>s\<in>set scores.
             confidenceLevel s \<in> {''MEDIUM'', ''HIGH'', ''HIGHER'', ''EXTREMELY_HIGH''})"
    by (simp add: hasHighRisk_def array_includes_def list_ex_iff)
  have empty: "hasHighRisk (Some []) = Some False"
    by (simp add: hasHighRisk_def)
  have harmless: "hasHighRisk (Some scores) = Some False"
    if "\<forall>s\<in>set scores. confidenceLevel s \<in> {''SAFE'', ''LOW''}"
    using that by (auto simp: hasHighRisk_def array_includes_def list_ex_iff)
  from general empty harmless show ?thesis by blast
qed

theorem hasHighRisk_iff_witness:
  "hasHighRisk (Some [\<lparr>threatType = ''MALWARE'', confidenceLevel = ''SAFE''\<rparr>,
                         \<lparr>threatType = ''SOCIAL_ENGINEERING'', confidenceLevel = ''LOW''\<rparr>])
       = Some False
   \<and> hasHighRisk (Some [\<lparr>threatType = ''MALWARE'', confidenceLevel = ''SAFE''\<rparr>,
                         \<lparr>threatType = ''SOCIAL_ENGINEERING'', confidenceLevel = ''HIGH''\<rparr>])
       = Some True"
  using hasHighRisk_iff [of "[\<lparr>threatType = ''MALWARE'', confidenceLevel = ''SAFE''\<rparr>,
                              \<lparr>threatType = ''SOCIAL_ENGINEERING'', confidenceLevel = ''LOW''\<rparr>]"]
        hasHighRisk_iff [of "[\<lparr>threatType = ''MALWARE'', confidenceLevel = ''SAFE''\<rparr>,
                              \<lparr>threatType = ''SOCIAL_ENGINEERING'', confidenceLevel = ''HIGH''\<rparr>]"]
  by simp

text \<open>
  Claim C8. For every sequence of score entries, the abuse type that \<^verbatim>\<open>handleQuickSubmit\<close>
  pre-fills is the threat type of the first entry, in the order given, whose confidence
  level is among MEDIUM, HIGH, HIGHER and EXTREMELY_HIGH, and it is empty when no entry
  qualifies.
\<close>

theorem handleQuickSubmit_abuseType:
  assumes "result_scores result = Some scores"
  shows "\<exists>st'. handleQuickSubmit result st = Some st' \<and>
     (if \<exists>s\<in>set scores. confidenceLevel s \<in> {''MEDIUM'', ''HIGH'', ''HIGHER'', ''EXTREMELY_HIGH''}
      then \<exists>i<length scores.
             confidenceLevel (scores ! i) \<in> {''MEDIUM'', ''HIGH'', ''HIGHER'', ''EXTREMELY_HIGH''} \<and>
             (\<forall>j<i. confidenceLevel (scores ! j)
                      \<notin> {''MEDIUM'', ''HIGH'', ''HIGHER'', ''EXTREMELY_HIGH''}) \<and>
             form_abuseType (submissionForm st') = threatType (scores ! i)
      else form_abuseType (submissionForm st') = '''')"
proof -
  let ?P = "\<lambda>score. array_includes [''MEDIUM'', ''HIGH'', ''HIGHER'', ''EXTREMELY_HIGH'']
                      (confidenceLevel score)"
  have P: "?P s = (confidenceLevel s \<in> {''MEDIUM'', ''HIGH'', ''HIGHER'', ''EXTREMELY_HIGH''})"
    for s :: score
    by (simp add: array_includes_def)
  show ?thesis
  proof (cases "find ?P scores")
    case None
    then have "\<not> (\<exists>s\<in>set scores. ?P s)" by (simp add: find_None_iff)
    with None assms show ?thesis
      by (simp add: handleQuickSubmit_def P)
  next
    case (Some s)
    then obtain i where i: "i < length scores" "?P (scores ! i)" "s = scores ! i"
        "\<forall>j<i. \<not> ?P (scores ! j)"
      by (auto simp: find_Some_iff)
    then have ex: "\<exists>s\<in>set scores. ?P s" by (metis nth_mem)
    have "form_abuseType (submissionForm (the (handleQuickSubmit result st))) = threatType (scores ! i)"
      using assms Some i(3) by (simp add: handleQuickSubmit_def)
    moreover have "handleQuickSubmit result st \<noteq> None"
      using assms by (simp add: handleQuickSubmit_def)
    ultimately show ?thesis using i ex unfolding P by auto
  qed
qed

theorem handleQuickSubmit_abuseType_witness:
  "\<exists>st'. handleQuickSubmit
       \<lparr>result_id = 1730000000000, result_url = ''http://evil.example'', result_status = ''threat'',
        result_timestamp = ''2024-10-27T03:33:20.000Z'',
        result_scores = Some [\<lparr>threatType = ''MALWARE'', confidenceLevel = ''LOW''\<rparr>,
                              \<lparr>threatType = ''SOCIAL_ENGINEERING'', confidenceLevel = ''HIGH''\<rparr>,
                              \<lparr>threatType = ''UNWANTED_SOFTWARE'', confidenceLevel = ''EXTREMELY_HIGH''\<rparr>],
        result_resolvedUriScore = None, result_details = None\<rparr> sample_state = Some st'
     \<and> form_abuseType (submissionForm st') = ''SOCIAL_ENGINEERING''"
proof -
  let ?scores = "[\<lparr>threatType = ''MALWARE'', confidenceLevel = ''LOW''\<rparr>,
                  \<lparr>threatType = ''SOCIAL_ENGINEERING'', confidenceLevel = ''HIGH''\<rparr>,
                  \<lparr>threatType = ''UNWANTED_SOFTWARE'', confidenceLevel = ''EXTREMELY_HIGH''\<rparr>]"
  let ?r = "\<lparr>result_id = 1730000000000, result_url = ''http://evil.example'', result_status = ''threat'',
        result_timestamp = ''2024-10-27T03:33:20.000Z'',
        result_scores = Some ?scores,
        result_resolvedUriScore = None, result_details = None\<rparr>"
  let ?M = "{''MEDIUM'', ''HIGH'', ''HIGHER'', ''EXTREMELY_HIGH''}"
  have h: "result_scores ?r = Some ?scores" by simp
  have ex: "\<exists>s\<in>set ?scores. confidenceLevel s \<in> ?M" by simp
  from handleQuickSubmit_abuseType [OF h, of sample_state]
  obtain st' where st': "handleQuickSubmit ?r sample_state = Some st'"
    and c: "if \<exists>s\<in>set ?scores. confidenceLevel s \<in> ?M
      then \<exists>i<length ?scores.
             confidenceLevel (?scores ! i) \<in> ?M \<and>
             (\<forall>j<i. confidenceLevel (?scores ! j) \<notin> ?M) \<and>
             form_abuseType (submissionForm st') = threatType (?scores ! i)
      else form_abuseType (submissionForm st') = ''''"
    by blast
  from c ex have "\<exists>i<length ?scores.
             confidenceLevel (?scores ! i) \<in> ?M \<and>
             (\<forall>j<i. confidenceLevel (?scores ! j) \<notin> ?M) \<and>
             form_abuseType (submissionForm st') = threatType (?scores ! i)"
    by (simp only: if_True)
  then obtain i where i: "i < length ?scores" "confidenceLevel (?scores ! i) \<in> ?M"
      "\<forall>j<i. confidenceLevel (?scores ! j) \<notin> ?M"
      "form_abuseType (submissionForm st') = threatType (?scores ! i)"
    by blast
  from i(1) have "i = 0 \<or> i = 1 \<or> i = 2" by (simp add: less_Suc_eq numeral_3_eq_3) arith
  then have "i = 1"
  proof (elim disjE)
    assume "i = 0" with i(2) show ?thesis by simp
  next
    assume "i = 1" then show ?thesis .
  next
    assume "i = 2"
    with i(3) have "(1::nat) < 2 \<longrightarrow> confidenceLevel (?scores ! 1) \<notin> ?M" by blast
    then show ?thesis by simp
  qed
  with i(4) have "form_abuseType (submissionForm st') = ''SOCIAL_ENGINEERING''" by simp
  with st' show ?thesis by blast
qed

section \<open>Scanning\<close>



text \<open>
  What \<^verbatim>\<open>handleScan\<close> stores as the status of a result with scores, and what the result
  card shows for it.
\<close>

lemma handleScan_status:
  assumes "reply_data (fetch env (scan_request st)) = Some data" and "d_scores data = Some scores"
  shows "\<exists>r. results (handleScan env st) = r # results st
     \<and> result_status r = (if \<forall>s\<in>set scores. confidenceLevel s = ''SAFE'' then ''safe'' else ''threat'')
     \<and> result_scores r = Some scores
     \<and> result_resolvedUriScore r = d_resolvedUriScore data"
proof -
  from assms(1) obtain ok code where "fetch env (scan_request st) = Response ok code (Body data)"
    by (cases "fetch env (scan_request st)" rule: reply_data.cases) auto
  with assms(2) show ?thesis
    by (simp add: handleScan_def handleScan_try_def Let_def list_all_iff)
qed

lemma verdictIsSafe_iff:
  "verdictIsSafe result =
     ((\<exists>scores. result_scores result = Some scores
          \<and> (\<forall>s\<in>set scores. confidenceLevel s \<in> {''SAFE'', ''LOW''}))
      \<and> (\<forall>r rs. result_resolvedUriScore result = Some r \<and> resolved_scores r = Some rs \<longrightarrow>
            (\<forall>s\<in>set rs. confidenceLevel s \<in> {''SAFE'', ''LOW''})))"
  by (auto simp: verdictIsSafe_def array_includes_def list_all_iff split: option.splits)

text \<open>
  Claim C1. The spec has the status \<^verbatim>\<open>safe\<close> exactly when every entry of \<^verbatim>\<open>scores\<close> is
  SAFE or LOW and the resolved URL's scores, when present, are too. \<^verbatim>\<open>handleScan\<close>
  stores \<^verbatim>\<open>safe\<close> only when every entry is exactly SAFE and never reads the resolved
  scores, while the result card computes its icon as the spec says. The two runs below
  show both differences: a single LOW entry is stored as \<^verbatim>\<open>threat\<close> and shown as safe, and
  a SAFE entry with a HIGH resolved score is stored as \<^verbatim>\<open>safe\<close> and shown as a threat.
\<close>

theorem handleScan_status_disagrees_with_verdict:
  "map result_status (results (handleScan
       (sample_env\<lparr>fetch := (\<lambda>r. ok_response
          (no_data\<lparr>d_scores := Some [\<lparr>threatType = ''MALWARE'', confidenceLevel = ''LOW''\<rparr>]\<rparr>))\<rparr>)
       sample_state)) = [''threat'']
   \<and> map verdictIsSafe (results (handleScan
       (sample_env\<lparr>fetch := (\<lambda>r. ok_response
          (no_data\<lparr>d_scores := Some [\<lparr>threatType = ''MALWARE'', confidenceLevel = ''LOW''\<rparr>]\<rparr>))\<rparr>)
       sample_state)) = [True]
   \<and> map result_status (results (handleScan
       (sample_env\<lparr>fetch := (\<lambda>r. ok_response
          (no_data\<lparr>d_scores := Some [\<lparr>threatType = ''MALWARE'', confidenceLevel = ''SAFE''\<rparr>],
                   d_resolvedUriScore := Some \<lparr>resolvedUri = ''http://landing.example'',
                     resolved_scores = Some [\<lparr>threatType = ''SOCIAL_ENGINEERING'',
                                               confidenceLevel = ''HIGH''\<rparr>]\<rparr>\<rparr>))\<rparr>)
       sample_state)) = [''safe'']
   \<and> map verdictIsSafe (results (handleScan
       (sample_env\<lparr>fetch := (\<lambda>r. ok_response
          (no_data\<lparr>d_scores := Some [\<lparr>threatType = ''MALWARE'', confidenceLevel = ''SAFE''\<rparr>],
                   d_resolvedUriScore := Some \<lparr>resolvedUri = ''http://landing.example'',
                     resolved_scores = Some [\<lparr>threatType = ''SOCIAL_ENGINEERING'',
                                               confidenceLevel = ''HIGH''\<rparr>]\<rparr>\<rparr>))\<rparr>)
       sample_state)) = [False]"
  by (simp add: handleScan_def handleScan_try_def Let_def scan_request_def ok_response_def
        no_data_def sample_state_eval verdictIsSafe_def array_includes_def)

section \<open>The submission list\<close>

text \<open>
  Claim C9. \<^verbatim>\<open>clearSubmissionHistory\<close> with the confirmation declined leaves the list in
  memory and the persisted slot as they were (the whole state is unchanged); with the
  confirmation given it empties the list in memory and erases the slot, so that a load
  finds nothing.
\<close>

theorem clearSubmissionHistory_confirmed:
  "(\<not> window_confirm env ''Are you sure you want to clear all submission history?'' \<longrightarrow>
      clearSubmissionHistory env st = st)
   \<and> (window_confirm env ''Are you sure you want to clear all submission history?'' \<longrightarrow>
      submissions (clearSubmissionHistory env st) = []
      \<and> localStorage (clearSubmissionHistory env st) STORAGE_KEY = None
      \<and> loadSubmissionsFromStorage env (localStorage (clearSubmissionHistory env st)) = ([], []))"
  by (simp add: clearSubmissionHistory_def loadSubmissionsFromStorage_def)

theorem clearSubmissionHistory_confirmed_witness:
  "\<not> window_confirm sample_env ''Are you sure you want to clear all submission history?''
   \<and> clearSubmissionHistory sample_env sample_state = sample_state
   \<and> window_confirm (sample_env\<lparr>window_confirm := (\<lambda>m. True)\<rparr>)
        ''Are you sure you want to clear all submission history?''
   \<and> submissions (clearSubmissionHistory (sample_env\<lparr>window_confirm := (\<lambda>m. True)\<rparr>) sample_state) = []
   \<and> localStorage (clearSubmissionHistory (sample_env\<lparr>window_confirm := (\<lambda>m. True)\<rparr>) sample_state)
        STORAGE_KEY = None"
  using clearSubmissionHistory_confirmed [of sample_env sample_state]
    clearSubmissionHistory_confirmed [of "sample_env\<lparr>window_confirm := (\<lambda>m. True)\<rparr>" sample_state]
  by (simp add: sample_env_def)

text \<open>
  Claim C10. For every submission list and every \<^verbatim>\<open>refreshSubmissionStatus\<close> call on one
  operation handle, each record whose handle differs from the target is left exactly as
  it was, and the list keeps its length and its order, whether the status request
  succeeds or fails.
\<close>

theorem refreshSubmissionStatus_frame:
  "length (submissions (refreshSubmissionStatus env op st)) = length (submissions st)
   \<and> (\<forall>i<length (submissions st).
         operation (submissions st ! i) \<noteq> op \<longrightarrow>
         submissions (refreshSubmissionStatus env op st) ! i = submissions st ! i)
   \<and> map operation (submissions (refreshSubmissionStatus env op st)) = map operation (submissions st)
   \<and> map sub_id (submissions (refreshSubmissionStatus env op st)) = map sub_id (submissions st)"
  by (simp add: refreshSubmissionStatus_def Let_def save_fields comp_def
           split: fetch_result.splits js_body.splits)

theorem refreshSubmissionStatus_frame_witness:
  "operation sample_submission \<noteq> ''submissions/456''
   \<and> submissions (refreshSubmissionStatus
        (sample_env\<lparr>fetch := (\<lambda>r. ok_response (no_data\<lparr>d_status := Some ''SUCCEEDED''\<rparr>))\<rparr>)
        ''submissions/456''
        (sample_state\<lparr>submissions :=
           [sample_submission, sample_submission\<lparr>operation := ''submissions/456''\<rparr>]\<rparr>)) ! 0
       = sample_submission
   \<and> submissions (refreshSubmissionStatus sample_env ''submissions/456''
        (sample_state\<lparr>submissions :=
           [sample_submission, sample_submission\<lparr>operation := ''submissions/456''\<rparr>]\<rparr>)) ! 0
       = sample_submission
   \<and> length (submissions (refreshSubmissionStatus
        (sample_env\<lparr>fetch := (\<lambda>r. ok_response (no_data\<lparr>d_status := Some ''SUCCEEDED''\<rparr>))\<rparr>)
        ''submissions/456''
        (sample_state\<lparr>submissions :=
           [sample_submission, sample_submission\<lparr>operation := ''submissions/456''\<rparr>]\<rparr>))) = 2"
proof -
  let ?st = "sample_state\<lparr>submissions :=
           [sample_submission, sample_submission\<lparr>operation := ''submissions/456''\<rparr>]\<rparr>"
  let ?env = "sample_env\<lparr>fetch := (\<lambda>r. ok_response (no_data\<lparr>d_status := Some ''SUCCEEDED''\<rparr>))\<rparr>"
  have differs: "operation sample_submission \<noteq> ''submissions/456''"
    by (simp add: sample_submission_def)
  have first: "0 < length (submissions ?st) \<and> operation (submissions ?st ! 0) \<noteq> ''submissions/456''"
    using differs by simp
  from refreshSubmissionStatus_frame [of ?env "''submissions/456''" ?st] first
  have a: "submissions (refreshSubmissionStatus ?env ''submissions/456'' ?st) ! 0 = sample_submission"
    and c: "length (submissions (refreshSubmissionStatus ?env ''submissions/456'' ?st)) = 2"
    by auto
  from refreshSubmissionStatus_frame [of sample_env "''submissions/456''" ?st] first
  have b: "submissions (refreshSubmissionStatus sample_env ''submissions/456'' ?st) ! 0 = sample_submission"
    by auto
  from differs a b c show ?thesis by blast
qed

text \<open>
  Claim C2. The spec has a refresh of a record that is not PENDING return the record
  unchanged without a network call. The older component does so (\<open>refreshOne_skips_non_pending\<close>);
  \<^verbatim>\<open>WebRiskDemo.refreshSubmissionStatus\<close> has no such guard: on a SUCCEEDED record it sends the
  status request and, when answered, rewrites the record's \<^verbatim>\<open>lastUpdated\<close>.
\<close>

theorem refreshSubmissionStatus_fetches_terminal_record:
  "network_calls (trace (refreshSubmissionStatus
       (sample_env\<lparr>fetch := (\<lambda>r. ok_response (no_data\<lparr>d_status := Some ''SUCCEEDED''\<rparr>))\<rparr>)
       ''submissions/123''
       (sample_state\<lparr>submissions := [sample_submission\<lparr>status := Some ''SUCCEEDED''\<rparr>]\<rparr>)))
     = [Fetch (GET ''/api/submission/123'')]
   \<and> submissions (refreshSubmissionStatus
       (sample_env\<lparr>fetch := (\<lambda>r. ok_response (no_data\<lparr>d_status := Some ''SUCCEEDED''\<rparr>))\<rparr>)
       ''submissions/123''
       (sample_state\<lparr>submissions := [sample_submission\<lparr>status := Some ''SUCCEEDED''\<rparr>]\<rparr>))
     = [sample_submission\<lparr>status := Some ''SUCCEEDED'', lastUpdated := ''2024-10-27T03:33:20.000Z''\<rparr>]
   \<and> [sample_submission\<lparr>status := Some ''SUCCEEDED'', lastUpdated := ''2024-10-27T03:33:20.000Z''\<rparr>]
       \<noteq> [sample_submission\<lparr>status := Some ''SUCCEEDED''\<rparr>]"
proof -
  let ?env = "sample_env\<lparr>fetch := (\<lambda>r. ok_response (no_data\<lparr>d_status := Some ''SUCCEEDED''\<rparr>))\<rparr>"
  let ?st = "sample_state\<lparr>submissions := [sample_submission\<lparr>status := Some ''SUCCEEDED''\<rparr>]\<rparr>"
  have calls: "network_calls (trace (refreshSubmissionStatus ?env ''submissions/123'' ?st))
      = [Fetch (GET ''/api/submission/123'')]"
    by (simp add: refreshSubmissionStatus_def Let_def pop_def status_request_def ok_response_def
          save_network_calls)
       (simp add: network_calls_def sample_state_eval)
  have subs: "submissions (refreshSubmissionStatus ?env ''submissions/123'' ?st)
      = [sample_submission\<lparr>status := Some ''SUCCEEDED'', lastUpdated := ''2024-10-27T03:33:20.000Z''\<rparr>]"
    by (simp add: refreshSubmissionStatus_def Let_def pop_def status_request_def ok_response_def
          save_fields no_data_def sample_env_def sample_submission_def)
  have changed: "[sample_submission\<lparr>status := Some ''SUCCEEDED'', lastUpdated := ''2024-10-27T03:33:20.000Z''\<rparr>]
       \<noteq> [sample_submission\<lparr>status := Some ''SUCCEEDED''\<rparr>]"
    by (simp add: sample_submission_def)
  from calls subs changed show ?thesis by simp
qed

section \<open>The persistent store\<close>



section \<open>Creating a submission\<close>




section \<open>Refreshing every pending submission\<close>




end
